theory Spec2Isabelle
  imports Main "HOL-Library.Sublist" "HOL-Library.AList"
begin

section \<open>The Spyder shell of spyder-kernels (console/shell.py)\<close>

text \<open>
  A shallow embedding of the class \<open>SpyderShell\<close>. Python objects live in an explicit
  store (a list of objects, an address is an index into it), because the namespace stack
  holds references to debugger sessions and namespace managers, and those refer to frames
  and to live namespace dictionaries in turn. Every method that mutates the shell takes
  the shell and returns the new one; every raise of the source is an \<open>Inl\<close> result.
\<close>

subsection \<open>Values, objects and the store\<close>

type_synonym addr = nat

datatype pyval = PyNone | PyBool bool | PyInt int | PyStr string | PyRef addr

text \<open>A Python dict with string keys, in insertion order.\<close>

type_synonym dict = "(string \<times> pyval) list"

datatype exn = IndexError | AttributeError | TypeError | KeyboardInterrupt | BdbQuit
  | OtherException string

text \<open>A frame object: \<open>f_globals\<close> and \<open>f_locals\<close> refer to dictionaries in the store.\<close>

record frame =
  f_globals :: addr
  f_locals :: addr

text \<open>
  A debugger session (\<open>SpyderPdb\<close>, an external collaborator). The shell reads
  \<open>curframe\<close>, \<open>curframe_locals\<close>, \<open>interrupting\<close> and \<open>allow_kbdint\<close>;
  \<open>attrs\<close> holds the attributes written by \<open>setattr\<close>, and \<open>set_trace_calls\<close>
  the frames \<open>set_trace\<close> was called with.
\<close>

record SpyderPdb =
  curframe :: "addr option"
  curframe_locals :: "addr option"
  interrupting :: bool
  allow_kbdint :: bool
  attrs :: dict
  set_trace_calls :: "addr option list"

text \<open>A namespace manager (\<open>NamespaceManager\<close>, an external collaborator).\<close>

record NamespaceManager =
  ns_globals :: addr
  ns_locals :: "addr option"

datatype object = Dict dict | Frame frame | Pdb SpyderPdb | NsMgr NamespaceManager

type_synonym store = "object list"

definition lookup :: "store \<Rightarrow> addr \<Rightarrow> object option" where
  "lookup h a = (if a < length h then Some (h ! a) else None)"

text \<open>Allocation appends the object; its address is the old length of the store.\<close>

definition alloc :: "store \<Rightarrow> object \<Rightarrow> addr \<times> store" where
  "alloc h ob = (length h, h @ [ob])"


subsection \<open>The shell\<close>

datatype event = LogDebug string | TracebackShown

record shell =
  namespace_stack :: "addr list"
  request_pdb_stop_flag :: bool
  pdb_conf :: dict
  allow_kbdint_flag :: bool
  user_ns_attr :: addr
  heap :: store
  events :: "event list"

definition PDB_CONF_KEYS :: "string list" where
  "PDB_CONF_KEYS = [''pdb_ignore_lib'', ''pdb_execute_events'', ''pdb_use_exclamation_mark'',
     ''pdb_stop_first_line'', ''breakpoints'', ''pdb_publish_stack'']"

subsection \<open>Input cleanup\<close>

definition disabled_pkg_managers :: "string list" where
  "disabled_pkg_managers = [''conda'', ''mamba'', ''micromamba'', ''pip'', ''pixi'', ''uv'']"

text \<open>The message starts with a backslash and the letter n (the source writes two backslashes).\<close>

definition disable_pkg_managers_msg :: string where
  "disable_pkg_managers_msg = CHR 0x5C # ''nInstalling packages through the IPython console doesn'' @ [CHR 0x27] @ ''t work '' @
     ''reliably in Spyder. Please use a system terminal to do that, '' @
     ''i.e. cmd.exe on Windows, Terminal on macOS or xterm on '' @
     ''Linux.''"

text \<open>\<open>str.startswith\<close>.\<close>

definition startswith :: "string \<Rightarrow> string \<Rightarrow> bool" where
  "startswith line p = (take (length p) line = p)"

text \<open>The test of one line: any of the products of a prefix and a command starts it.\<close>

definition is_pkg_manager_call :: "string \<Rightarrow> bool" where
  "is_pkg_manager_call line =
     list_ex (\<lambda>(pre, command). startswith line (pre @ command))
       (List.product [''%'', ''!''] disabled_pkg_managers)"

fun do_input_cleanup_loop :: "string list \<Rightarrow> string list \<Rightarrow> string list" where
  "do_input_cleanup_loop lines [] = lines"
| "do_input_cleanup_loop lines (line # rest) =
     (if is_pkg_manager_call line
      then [''print('' @ [CHR 0x22] @ disable_pkg_managers_msg @ [CHR 0x22] @ '')'']
      else do_input_cleanup_loop lines rest)"

text \<open>The method \<open>_do_input_cleanup\<close>: the loop runs over the lines it was given.\<close>

definition do_input_cleanup :: "string list \<Rightarrow> string list" where
  "do_input_cleanup lines = do_input_cleanup_loop lines lines"

subsection \<open>Traceback filtering\<close>

text \<open>
  \<open>re.match\<close> anchors at the start of the line. The verbose pattern is the literal
  \<open>File\<close> and a space, then a group that matches anything, also nothing.
\<close>

definition match_verbose :: "string \<Rightarrow> bool" where
  "match_verbose line = startswith line ''File ''"

text \<open>
  A greedy \<open>(.*)\<close> followed by a literal: some position of the text starts the literal,
  and no newline comes before it (the dot does not match a newline).
\<close>

fun dotstar_then :: "string \<Rightarrow> string \<Rightarrow> bool" where
  "dotstar_then lit [] = startswith [] lit"
| "dotstar_then lit (c # cs) =
     (startswith (c # cs) lit \<or> (c \<noteq> CHR 0x0A \<and> dotstar_then lit cs))"

text \<open>The plain pattern: escape, an opening bracket, \<open>(.*)\<close>, two spaces, \<open>File\<close>, a space.\<close>

definition match_plain :: "string \<Rightarrow> bool" where
  "match_plain line =
     (startswith line [CHR 0x1B, CHR 0x5B] \<and> dotstar_then ''  File '' (drop 2 line))"

text \<open>The operator \<open>in\<close> on strings.\<close>

fun contains :: "string \<Rightarrow> string \<Rightarrow> bool" where
  "contains [] sub = startswith [] sub"
| "contains (c # cs) sub = (startswith (c # cs) sub \<or> contains cs sub)"

text \<open>
  \<open>os.path.join\<close> of relative components puts the separator of the platform between
  them; the separator is a parameter.
\<close>

definition package_locations :: "string \<Rightarrow> string list" where
  "package_locations sep =
     [''site-packages'' @ sep @ ''spyder_kernels'',
      ''external-deps'' @ sep @ ''spyder-kernels'' @ sep @ ''spyder_kernels'']"

definition is_internal_line :: "string \<Rightarrow> string \<Rightarrow> bool" where
  "is_internal_line sep line =
     ((match_verbose line \<or> match_plain line)
      \<and> list_ex (\<lambda>location. contains line location) (package_locations sep))"

fun skip_internal_frames :: "string \<Rightarrow> string list \<Rightarrow> string list \<Rightarrow> string list" where
  "skip_internal_frames sep spyder_stb [] = spyder_stb"
| "skip_internal_frames sep spyder_stb (line # stb) =
     (if is_internal_line sep line then skip_internal_frames sep spyder_stb stb
      else skip_internal_frames sep (spyder_stb @ [line]) stb)"

text \<open>
  The method \<open>_showtraceback\<close>: the result is the list \<open>spyder_stb\<close> that is handed to
  the method of the base class.
\<close>

definition private_showtraceback :: "string \<Rightarrow> exn \<Rightarrow> string list \<Rightarrow> string list" where
  "private_showtraceback sep etype stb =
     (if etype = BdbQuit then [] @ [[]] else skip_internal_frames sep [] stb)"

subsection \<open>The namespace stack\<close>

text \<open>The property \<open>pdb_session\<close>: the first debugger session from the top of the stack.\<close>

fun first_pdb :: "store \<Rightarrow> addr list \<Rightarrow> addr option" where
  "first_pdb h [] = None"
| "first_pdb h (session # rest) =
     (case lookup h session of
        Some (Pdb p) \<Rightarrow> Some session
      | _ \<Rightarrow> first_pdb h rest)"

definition pdb_session :: "shell \<Rightarrow> addr option" where
  "pdb_session s = first_pdb (heap s) (rev (namespace_stack s))"

fun any_debugging :: "store \<Rightarrow> addr list \<Rightarrow> bool" where
  "any_debugging h [] = False"
| "any_debugging h (session # rest) =
     (case lookup h session of
        Some (Pdb p) \<Rightarrow> (if curframe p \<noteq> None then True else any_debugging h rest)
      | _ \<Rightarrow> any_debugging h rest)"

definition is_debugging :: "shell \<Rightarrow> bool" where
  "is_debugging s = any_debugging (heap s) (rev (namespace_stack s))"

text \<open>\<open>setattr\<close> on a debugger session.\<close>

definition setattr :: "addr \<Rightarrow> string \<Rightarrow> pyval \<Rightarrow> shell \<Rightarrow> shell" where
  "setattr a key v s =
     (case lookup (heap s) a of
        Some (Pdb p) \<Rightarrow> s\<lparr>heap := (heap s)[a := Pdb (p\<lparr>attrs := AList.update key v (attrs p)\<rparr>)]\<rparr>
      | _ \<Rightarrow> s)"

fun set_pdb_configuration_keys :: "string list \<Rightarrow> dict \<Rightarrow> shell \<Rightarrow> shell" where
  "set_pdb_configuration_keys [] conf s = s"
| "set_pdb_configuration_keys (key # keys) conf s =
     (case map_of conf key of
        None \<Rightarrow> set_pdb_configuration_keys keys conf s
      | Some v \<Rightarrow>
          (let s1 = s\<lparr>pdb_conf := AList.update key v (pdb_conf s)\<rparr>;
               s2 = (case pdb_session s1 of None \<Rightarrow> s1 | Some a \<Rightarrow> setattr a key v s1)
           in set_pdb_configuration_keys keys conf s2))"

definition set_pdb_configuration :: "dict \<Rightarrow> shell \<Rightarrow> shell" where
  "set_pdb_configuration conf s = set_pdb_configuration_keys PDB_CONF_KEYS conf s"

definition add_pdb_session :: "addr \<Rightarrow> shell \<Rightarrow> shell" where
  "add_pdb_session pdb_obj s =
     (if pdb_session s = Some pdb_obj then s
      else (let s1 = s\<lparr>namespace_stack := namespace_stack s @ [pdb_obj]\<rparr>
            in set_pdb_configuration (pdb_conf s1) s1))"

text \<open>\<open>list.pop()\<close> raises \<open>IndexError\<close> on the empty list.\<close>

definition remove_pdb_session :: "addr \<Rightarrow> shell \<Rightarrow> (exn + unit) \<times> shell" where
  "remove_pdb_session pdb_obj s =
     (if pdb_session s \<noteq> Some pdb_obj then (Inr (), s)
      else if namespace_stack s = [] then (Inl IndexError, s)
      else (let s1 = s\<lparr>namespace_stack := butlast (namespace_stack s)\<rparr>
            in if pdb_session s1 \<noteq> None then (Inr (), set_pdb_configuration (pdb_conf s1) s1)
               else (Inr (), s1)))"

definition add_namespace_manager :: "addr \<Rightarrow> shell \<Rightarrow> shell" where
  "add_namespace_manager ns_manager s = s\<lparr>namespace_stack := namespace_stack s @ [ns_manager]\<rparr>"

text \<open>The index \<open>-1\<close> raises \<open>IndexError\<close> on the empty list.\<close>

definition remove_namespace_manager :: "addr \<Rightarrow> shell \<Rightarrow> (exn + unit) \<times> shell" where
  "remove_namespace_manager ns_manager s =
     (if namespace_stack s = [] then (Inl IndexError, s)
      else if last (namespace_stack s) \<noteq> ns_manager
      then (Inr (), s\<lparr>events := events s @ [LogDebug ''The namespace stack is inconsistent.'']\<rparr>)
      else (Inr (), s\<lparr>namespace_stack := butlast (namespace_stack s)\<rparr>))"

subsection \<open>Namespace resolution\<close>






text \<open>The loop of the property \<open>user_ns\<close>; the empty list is the return after the loop.\<close>

fun user_ns_scan :: "store \<Rightarrow> addr \<Rightarrow> addr list \<Rightarrow> exn + addr" where
  "user_ns_scan h fallback [] = Inr fallback"
| "user_ns_scan h fallback (session # rest) =
     (case lookup h session of
        Some (Pdb p) \<Rightarrow>
          (case curframe p of
             Some f \<Rightarrow>
               (case lookup h f of
                  Some (Frame fr) \<Rightarrow> Inr (f_globals fr)
                | _ \<Rightarrow> Inl AttributeError)
           | None \<Rightarrow> user_ns_scan h fallback rest)
      | Some (NsMgr m) \<Rightarrow> Inr (ns_globals m)
      | _ \<Rightarrow> user_ns_scan h fallback rest)"

definition user_ns :: "shell \<Rightarrow> exn + addr" where
  "user_ns s = user_ns_scan (heap s) (user_ns_attr s) (rev (namespace_stack s))"





subsection \<open>The interrupt policy\<close>

text \<open>
  Modelled from the spec: the constructor of \<open>SpyderPdb\<close>, a class that is not part
  of the sources. A new session has no current frame, is not interrupting and does not
  allow a raised interrupt.
\<close>

definition new_SpyderPdb :: SpyderPdb where
  "new_SpyderPdb = \<lparr>curframe = None, curframe_locals = None, interrupting = False,
     allow_kbdint = False, attrs = [], set_trace_calls = []\<rparr>"

text \<open>
  Modelled from the spec: the method \<open>interrupt\<close> of \<open>SpyderPdb\<close>, which is not
  part of the sources. It marks the session as interrupting.
\<close>

definition interrupt :: "SpyderPdb \<Rightarrow> SpyderPdb" where
  "interrupt p = p\<lparr>interrupting := True\<rparr>"

text \<open>
  Modelled from the spec: the method \<open>set_trace\<close> of \<open>SpyderPdb\<close>, which is not
  part of the sources. It attaches the session to the frame it is given; the frame is
  recorded in \<open>set_trace_calls\<close>.
\<close>

definition set_trace :: "addr option \<Rightarrow> SpyderPdb \<Rightarrow> SpyderPdb" where
  "set_trace frame p = p\<lparr>set_trace_calls := set_trace_calls p @ [frame]\<rparr>"

text \<open>A method call on the debugger session at an address.\<close>

definition call_pdb :: "(SpyderPdb \<Rightarrow> SpyderPdb) \<Rightarrow> addr \<Rightarrow> store \<Rightarrow> store" where
  "call_pdb m a h =
     (case lookup h a of
        Some (Pdb p) \<Rightarrow> h[a := Pdb (m p)]
      | _ \<Rightarrow> h)"

definition spyderkernel_sigint_handler ::
  "int \<Rightarrow> addr option \<Rightarrow> shell \<Rightarrow> (exn + unit) \<times> shell" where
  "spyderkernel_sigint_handler signum frame s =
     (if request_pdb_stop_flag s
      then (let s1 = s\<lparr>request_pdb_stop_flag := False\<rparr>;
                (debugger, h1) = alloc (heap s1) (Pdb new_SpyderPdb);
                h2 = call_pdb interrupt debugger h1;
                h3 = call_pdb (set_trace frame) debugger h2
            in (Inr (), s1\<lparr>heap := h3\<rparr>))
      else (case pdb_session s of
              Some a \<Rightarrow>
                (case lookup (heap s) a of
                   Some (Pdb p) \<Rightarrow>
                     (if allow_kbdint p then (Inl KeyboardInterrupt, s)
                      else if interrupting p then (Inl KeyboardInterrupt, s)
                      else (Inr (), s\<lparr>heap := call_pdb interrupt a (heap s)\<rparr>))
                 | _ \<Rightarrow> (Inl AttributeError, s))
            | None \<Rightarrow>
                (if allow_kbdint_flag s then (Inl KeyboardInterrupt, s) else (Inr (), s))))"

text \<open>
  The method \<open>showtraceback\<close>: the display by the base class is the event
  \<open>TracebackShown\<close>; the notification of the frontend after it is best effort, inside a
  \<open>try\<close> that catches its exceptions.
\<close>

definition showtraceback :: "shell \<Rightarrow> shell" where
  "showtraceback s = s\<lparr>events := events s @ [TracebackShown]\<rparr>"

text \<open>
  The method \<open>run_code\<close>. The method of the base class, which executes the submitted
  code, is the parameter \<open>super_run_code\<close>. The \<open>finally\<close> clause runs on every exit;
  \<open>KeyboardInterrupt\<close> is caught and the method returns \<open>None\<close>.
\<close>

definition run_code ::
  "(shell \<Rightarrow> (exn + 'r) \<times> shell) \<Rightarrow> shell \<Rightarrow> (exn + 'r option) \<times> shell" where
  "run_code super_run_code s =
     (let s1 = s\<lparr>allow_kbdint_flag := True\<rparr>;
          (r, s2) = super_run_code s1;
          s3 = s2\<lparr>allow_kbdint_flag := False\<rparr>
      in case r of
           Inr v \<Rightarrow> (Inr (Some v), s3)
         | Inl e \<Rightarrow>
             (if e = KeyboardInterrupt then (Inr None, showtraceback s3) else (Inl e, s3)))"

subsection \<open>The active namespace in the words of the specification\<close>

text \<open>
  The specification words the resolution with a priority: the most recently pushed
  debugger session that has a current frame; if there is none, the most recently pushed
  namespace manager; if there is none either, the fallback. This second definition
  follows those words, to be compared with \<open>user_ns\<close>.
\<close>

definition debugger_frame_globals :: "store \<Rightarrow> addr \<Rightarrow> addr option" where
  "debugger_frame_globals h a =
     (case lookup h a of
        Some (Pdb p) \<Rightarrow>
          (case curframe p of
             Some f \<Rightarrow> (case lookup h f of Some (Frame fr) \<Rightarrow> Some (f_globals fr) | _ \<Rightarrow> None)
           | None \<Rightarrow> None)
      | _ \<Rightarrow> None)"

definition manager_globals :: "store \<Rightarrow> addr \<Rightarrow> addr option" where
  "manager_globals h a =
     (case lookup h a of Some (NsMgr m) \<Rightarrow> Some (ns_globals m) | _ \<Rightarrow> None)"

definition user_ns_as_claimed :: "shell \<Rightarrow> addr" where
  "user_ns_as_claimed s =
     (case List.map_filter (debugger_frame_globals (heap s)) (rev (namespace_stack s)) of
        g # _ \<Rightarrow> g
      | [] \<Rightarrow>
          (case List.map_filter (manager_globals (heap s)) (rev (namespace_stack s)) of
             g # _ \<Rightarrow> g
           | [] \<Rightarrow> user_ns_attr s))"

subsection \<open>Example states\<close>

text \<open>
  A store with the fallback namespace (0), a frame (3) with its globals (1) and locals (2),
  a debugger session stopped at that frame (4), a namespace manager (6) with its globals
  (5), and a debugger session without a current frame (7).
\<close>

definition example_store :: store where
  "example_store =
     [Dict [(''a'', PyInt 0)],
      Dict [(''x'', PyInt 1)],
      Dict [(''y'', PyInt 2)],
      Frame \<lparr>f_globals = 1, f_locals = 2\<rparr>,
      Pdb (new_SpyderPdb\<lparr>curframe := Some 3, curframe_locals := Some 2\<rparr>),
      Dict [(''m'', PyInt 3)],
      NsMgr \<lparr>ns_globals = 5, ns_locals = None\<rparr>,
      Pdb new_SpyderPdb]"

definition example_shell :: "addr list \<Rightarrow> shell" where
  "example_shell stack =
     \<lparr>namespace_stack = stack, request_pdb_stop_flag = False,
      pdb_conf = [(''pdb_ignore_lib'', PyBool True)], allow_kbdint_flag = False,
      user_ns_attr = 0, heap = example_store, events = []\<rparr>"

text \<open>A traceback with one line inside the installation of the package.\<close>

definition example_stb :: "string list" where
  "example_stb =
     [''Traceback (most recent call last):'',
      ''File /lib/site-packages/spyder_kernels/console/shell.py:456'',
      ''File /home/user/script.py:3'',
      ''TypeError: bad'']"




section \<open>Properties\<close>

lemmas example_simps = example_shell_def example_store_def lookup_def new_SpyderPdb_def

subsection \<open>The topmost debugger session\<close>

lemma first_pdb_Some:
  "first_pdb h stack = Some a \<Longrightarrow> a \<in> set stack \<and> (\<exists>p. lookup h a = Some (Pdb p))"
  by (induction stack) (auto split: option.splits object.splits)

lemma pdb_session_Some:
  "pdb_session s = Some a \<Longrightarrow>
     a \<in> set (namespace_stack s) \<and> (\<exists>p. lookup (heap s) a = Some (Pdb p))"
  using first_pdb_Some [of "heap s" "rev (namespace_stack s)" a]
  by (simp add: pdb_session_def)

lemma lookup_update:
  "lookup (h[a := ob]) b = (if b = a \<and> a < length h then Some ob else lookup h b)"
  by (simp add: lookup_def)

lemma first_pdb_update:
  "lookup h a = Some (Pdb p) \<Longrightarrow> first_pdb (h[a := Pdb q]) stack = first_pdb h stack"
  by (induction stack) (auto simp: lookup_update split: option.splits object.splits)

subsection \<open>Input cleanup\<close>

lemma startswith_prefix: "startswith line p = prefix p line"
  unfolding startswith_def prefix_def
  by (metis append_eq_conv_conj append_take_drop_id)

lemma is_pkg_manager_call_iff:
  "is_pkg_manager_call line =
     (\<exists>pre \<in> {''%'', ''!''}. \<exists>command \<in> set disabled_pkg_managers. prefix (pre @ command) line)"
proof -
  have "is_pkg_manager_call line =
     (\<exists>(pre, command) \<in> set [''%'', ''!''] \<times> set disabled_pkg_managers.
         prefix (pre @ command) line)"
    unfolding is_pkg_manager_call_def list_ex_iff startswith_prefix
    by (simp only: set_product)
  also have "\<dots> = (\<exists>pre \<in> set [''%'', ''!'']. \<exists>command \<in> set disabled_pkg_managers.
         prefix (pre @ command) line)"
    by blast
  finally show ?thesis by simp
qed

lemma do_input_cleanup_loop_hit:
  "\<exists>line \<in> set rest. is_pkg_manager_call line \<Longrightarrow>
   do_input_cleanup_loop lines rest =
     [''print('' @ [CHR 0x22] @ disable_pkg_managers_msg @ [CHR 0x22] @ '')'']"
  by (induction rest) auto

lemma do_input_cleanup_loop_miss:
  "\<forall>line \<in> set rest. \<not> is_pkg_manager_call line \<Longrightarrow> do_input_cleanup_loop lines rest = lines"
  by (induction rest) auto

text \<open>
  C6. For every list of input lines: if some line starts with a prefix \<open>%\<close> or \<open>!\<close>
  followed immediately by one of the names conda, mamba, micromamba, pip, pixi, uv, the
  transformer returns exactly one line, which prints the fixed warning message; if no
  line does, it returns the input list unchanged.
\<close>

theorem do_input_cleanup_spec:
  "((\<exists>line \<in> set lines. \<exists>pre \<in> {''%'', ''!''}. \<exists>command \<in> set disabled_pkg_managers.
        prefix (pre @ command) line)
      \<longrightarrow> do_input_cleanup lines =
            [''print('' @ [CHR 0x22] @ disable_pkg_managers_msg @ [CHR 0x22] @ '')''])
   \<and> (\<not> (\<exists>line \<in> set lines. \<exists>pre \<in> {''%'', ''!''}. \<exists>command \<in> set disabled_pkg_managers.
        prefix (pre @ command) line)
      \<longrightarrow> do_input_cleanup lines = lines)"
  unfolding do_input_cleanup_def is_pkg_manager_call_iff [symmetric]
  using do_input_cleanup_loop_hit [of lines lines] do_input_cleanup_loop_miss [of lines lines]
  by blast

theorem do_input_cleanup_spec_witness:
  "do_input_cleanup [''x = 1'', ''!conda install y''] =
     [''print('' @ [CHR 0x22] @ disable_pkg_managers_msg @ [CHR 0x22] @ '')'']
   \<and> do_input_cleanup [''x = 1'', ''print(x)''] = [''x = 1'', ''print(x)'']"
proof -
  have hit: "\<exists>line \<in> set [''x = 1'', ''!conda install y'']. \<exists>pre \<in> {''%'', ''!''}.
      \<exists>command \<in> set disabled_pkg_managers. prefix (pre @ command) line"
    by (simp add: disabled_pkg_managers_def)
  have miss: "\<not> (\<exists>line \<in> set [''x = 1'', ''print(x)'']. \<exists>pre \<in> {''%'', ''!''}.
      \<exists>command \<in> set disabled_pkg_managers. prefix (pre @ command) line)"
    by (simp add: disabled_pkg_managers_def)
  from hit miss do_input_cleanup_spec [of "[''x = 1'', ''!conda install y'']"]
    do_input_cleanup_spec [of "[''x = 1'', ''print(x)'']"]
  show ?thesis by blast
qed

subsection \<open>Pushing the active debugger session again\<close>

text \<open>
  C10. For every state of the shell, \<open>add_pdb_session\<close> with the object that is the
  current topmost debugger session (\<open>pdb_session\<close>) leaves the shell as it is: nothing
  is appended to the namespace stack and no configuration is applied.
\<close>

theorem add_pdb_session_idem:
  "pdb_session s = Some pdb_obj \<Longrightarrow> add_pdb_session pdb_obj s = s"
  by (simp add: add_pdb_session_def)

theorem add_pdb_session_idem_witness:
  "pdb_session (example_shell [6, 4]) = Some 4
   \<and> add_pdb_session 4 (example_shell [6, 4]) = example_shell [6, 4]"
proof -
  have h: "pdb_session (example_shell [6, 4]) = Some 4"
    by (simp add: pdb_session_def example_shell_def example_store_def lookup_def)
  from h add_pdb_session_idem [OF h] show ?thesis by simp
qed

subsection \<open>Traceback filtering\<close>

lemma contains_sublist: "contains line sub = sublist sub line"
  by (induction line) (simp_all add: startswith_prefix sublist_Cons_right)

lemma dotstar_then_iff:
  "dotstar_then lit str = (\<exists>a b. str = a @ lit @ b \<and> CHR 0x0A \<notin> set a)"
proof (induction str)
  case Nil
  then show ?case by (auto simp: startswith_prefix)
next
  case (Cons c cs)
  show ?case
  proof
    assume "dotstar_then lit (c # cs)"
    then consider "prefix lit (c # cs)" | "c \<noteq> CHR 0x0A" "dotstar_then lit cs"
      by (auto simp: startswith_prefix)
    then show "\<exists>a b. c # cs = a @ lit @ b \<and> CHR 0x0A \<notin> set a"
    proof cases
      case 1
      then obtain b where "c # cs = [] @ lit @ b" by (auto simp: prefix_def)
      then show ?thesis by (metis empty_iff list.set(1))
    next
      case 2
      with Cons.IH obtain a b where "cs = a @ lit @ b" "CHR 0x0A \<notin> set a" by blast
      with 2 have "c # cs = (c # a) @ lit @ b \<and> CHR 0x0A \<notin> set (c # a)" by simp
      then show ?thesis by blast
    qed
  next
    assume "\<exists>a b. c # cs = a @ lit @ b \<and> CHR 0x0A \<notin> set a"
    then obtain a b where ab: "c # cs = a @ lit @ b" "CHR 0x0A \<notin> set a" by blast
    show "dotstar_then lit (c # cs)"
    proof (cases a)
      case Nil
      with ab have "prefix lit (c # cs)" by (simp add: prefix_def)
      then show ?thesis by (simp add: startswith_prefix)
    next
      case (Cons x xs)
      with ab have "c = x" "cs = xs @ lit @ b" "CHR 0x0A \<notin> set xs" "x \<noteq> CHR 0x0A" by auto
      with Cons.IH show ?thesis by auto
    qed
  qed
qed

lemma match_plain_iff:
  "match_plain line =
     (\<exists>a b. line = [CHR 0x1B, CHR 0x5B] @ a @ ''  File '' @ b \<and> CHR 0x0A \<notin> set a)"
proof
  assume "match_plain line"
  then have p: "prefix [CHR 0x1B, CHR 0x5B] line" and d: "dotstar_then ''  File '' (drop 2 line)"
    by (simp_all add: match_plain_def startswith_prefix)
  from p obtain r where r: "line = [CHR 0x1B, CHR 0x5B] @ r" by (auto simp: prefix_def)
  with d obtain a b where "r = a @ ''  File '' @ b" "CHR 0x0A \<notin> set a"
    by (auto simp: dotstar_then_iff)
  with r show "\<exists>a b. line = [CHR 0x1B, CHR 0x5B] @ a @ ''  File '' @ b \<and> CHR 0x0A \<notin> set a"
    by blast
next
  assume "\<exists>a b. line = [CHR 0x1B, CHR 0x5B] @ a @ ''  File '' @ b \<and> CHR 0x0A \<notin> set a"
  then obtain a b where ab: "line = [CHR 0x1B, CHR 0x5B] @ a @ ''  File '' @ b" "CHR 0x0A \<notin> set a"
    by blast
  then have "drop 2 line = a @ ''  File '' @ b" by simp
  with ab(2) have "dotstar_then ''  File '' (drop 2 line)"
    unfolding dotstar_then_iff by blast
  moreover from ab(1) have "prefix [CHR 0x1B, CHR 0x5B] line" by (simp add: prefix_def)
  ultimately show "match_plain line" by (simp add: match_plain_def startswith_prefix)
qed

lemma is_internal_line_iff:
  "is_internal_line sep line =
     ((prefix ''File '' line
        \<or> (\<exists>a b. line = [CHR 0x1B, CHR 0x5B] @ a @ ''  File '' @ b \<and> CHR 0x0A \<notin> set a))
      \<and> (\<exists>location \<in> set (package_locations sep). sublist location line))"
  unfolding is_internal_line_def match_verbose_def startswith_prefix match_plain_iff
    list_ex_iff contains_sublist ..

lemma skip_internal_frames_filter:
  "skip_internal_frames sep spyder_stb stb =
     spyder_stb @ filter (\<lambda>line. \<not> is_internal_line sep line) stb"
  by (induction stb arbitrary: spyder_stb) simp_all

text \<open>
  C7, as amended. For every list of formatted traceback lines: if the exception type is
  \<open>BdbQuit\<close>, the filtered traceback is the single empty line, whatever the lines are
  (no details are shown; it is not the empty list). Otherwise a line is removed if and
  only if it matches a file location pattern (verbose: it starts with \<open>File\<close> and a
  space; plain: it starts with escape and an opening bracket, followed after any
  characters other than a newline by two spaces, \<open>File\<close> and a space) and contains one
  of the two installation path substrings; all other lines are kept, in order.
\<close>

theorem private_showtraceback_spec:
  "private_showtraceback sep BdbQuit stb = ['''']
   \<and> (etype \<noteq> BdbQuit \<longrightarrow>
        private_showtraceback sep etype stb =
          filter (\<lambda>line. \<not> ((prefix ''File '' line
                    \<or> (\<exists>a b. line = [CHR 0x1B, CHR 0x5B] @ a @ ''  File '' @ b
                          \<and> CHR 0x0A \<notin> set a))
                  \<and> (\<exists>location \<in> set (package_locations sep). sublist location line))) stb)"
  by (simp add: private_showtraceback_def skip_internal_frames_filter is_internal_line_iff)

theorem private_showtraceback_spec_witness:
  "TypeError \<noteq> BdbQuit
   \<and> private_showtraceback ''/'' BdbQuit example_stb = ['''']
   \<and> private_showtraceback ''/'' TypeError example_stb =
       [''Traceback (most recent call last):'', ''File /home/user/script.py:3'', ''TypeError: bad'']
   \<and> filter (\<lambda>line. \<not> ((prefix ''File '' line
                    \<or> (\<exists>a b. line = [CHR 0x1B, CHR 0x5B] @ a @ ''  File '' @ b
                          \<and> CHR 0x0A \<notin> set a))
                  \<and> (\<exists>location \<in> set (package_locations ''/''). sublist location line)))
         example_stb =
       [''Traceback (most recent call last):'', ''File /home/user/script.py:3'', ''TypeError: bad'']"
proof -
  have d: "TypeError \<noteq> BdbQuit" by simp
  have e: "private_showtraceback ''/'' TypeError example_stb =
       [''Traceback (most recent call last):'', ''File /home/user/script.py:3'', ''TypeError: bad'']"
    by (simp add: private_showtraceback_def is_internal_line_def match_verbose_def
        match_plain_def startswith_def package_locations_def example_stb_def)
  note t = private_showtraceback_spec [of "''/''" example_stb TypeError]
  from t have q: "private_showtraceback ''/'' BdbQuit example_stb = ['''']"
    by (rule conjunct1)
  from t d have f: "private_showtraceback ''/'' TypeError example_stb =
      filter (\<lambda>line. \<not> ((prefix ''File '' line
                    \<or> (\<exists>a b. line = [CHR 0x1B, CHR 0x5B] @ a @ ''  File '' @ b
                          \<and> CHR 0x0A \<notin> set a))
                  \<and> (\<exists>location \<in> set (package_locations ''/''). sublist location line)))
         example_stb"
    by blast
  show ?thesis
    by (intro conjI) (rule d, rule q, rule e, rule trans [OF f [symmetric] e])
qed

text \<open>
  The claim C7 as it is stated asks for an empty filtered traceback on \<open>BdbQuit\<close>; the
  list handed on has one element.
\<close>

theorem private_showtraceback_counterexample:
  "private_showtraceback ''/'' BdbQuit [''Traceback (most recent call last):''] \<noteq> []
   \<and> length (private_showtraceback ''/'' BdbQuit [''Traceback (most recent call last):'']) = 1"
  by (simp add: private_showtraceback_def)

subsection \<open>Resolution of the active namespace\<close>

lemma user_ns_scan_skip:
  "\<forall>b \<in> set newer. (\<forall>p. lookup h b = Some (Pdb p) \<longrightarrow> curframe p = None)
       \<and> (\<forall>m. lookup h b \<noteq> Some (NsMgr m)) \<Longrightarrow>
   user_ns_scan h fallback (newer @ rest) = user_ns_scan h fallback rest"
  by (induction newer) (auto split: option.splits object.splits)

text \<open>
  C1, as amended. For every namespace stack, \<open>user_ns\<close> is decided by the most recently
  pushed entry that is either a debugger session with a current frame or a namespace
  manager, whichever of the two kinds it is: the globals of the current frame for the
  debugger session, the globals of the manager for the namespace manager. If the stack
  has no such entry, the result is the persistent fallback user namespace.
\<close>

theorem user_ns_resolution:
  "(namespace_stack s = older @ a # newer
      \<and> (\<forall>b \<in> set newer. (\<forall>p. lookup (heap s) b = Some (Pdb p) \<longrightarrow> curframe p = None)
            \<and> (\<forall>m. lookup (heap s) b \<noteq> Some (NsMgr m)))
      \<and> lookup (heap s) a = Some (Pdb p) \<and> curframe p = Some f
      \<and> lookup (heap s) f = Some (Frame fr)
      \<longrightarrow> user_ns s = Inr (f_globals fr))
   \<and> (namespace_stack s = older @ a # newer
      \<and> (\<forall>b \<in> set newer. (\<forall>p. lookup (heap s) b = Some (Pdb p) \<longrightarrow> curframe p = None)
            \<and> (\<forall>m. lookup (heap s) b \<noteq> Some (NsMgr m)))
      \<and> lookup (heap s) a = Some (NsMgr m)
      \<longrightarrow> user_ns s = Inr (ns_globals m))
   \<and> ((\<forall>b \<in> set (namespace_stack s). (\<forall>p. lookup (heap s) b = Some (Pdb p) \<longrightarrow> curframe p = None)
            \<and> (\<forall>m. lookup (heap s) b \<noteq> Some (NsMgr m)))
      \<longrightarrow> user_ns s = Inr (user_ns_attr s))"
proof (intro conjI impI)
  assume h: "namespace_stack s = older @ a # newer
      \<and> (\<forall>b \<in> set newer. (\<forall>p. lookup (heap s) b = Some (Pdb p) \<longrightarrow> curframe p = None)
            \<and> (\<forall>m. lookup (heap s) b \<noteq> Some (NsMgr m)))
      \<and> lookup (heap s) a = Some (Pdb p) \<and> curframe p = Some f
      \<and> lookup (heap s) f = Some (Frame fr)"
  then have "user_ns s = user_ns_scan (heap s) (user_ns_attr s) (a # rev older)"
    using user_ns_scan_skip [of "rev newer" "heap s"] by (simp add: user_ns_def)
  with h show "user_ns s = Inr (f_globals fr)" by simp
next
  assume h: "namespace_stack s = older @ a # newer
      \<and> (\<forall>b \<in> set newer. (\<forall>p. lookup (heap s) b = Some (Pdb p) \<longrightarrow> curframe p = None)
            \<and> (\<forall>m. lookup (heap s) b \<noteq> Some (NsMgr m)))
      \<and> lookup (heap s) a = Some (NsMgr m)"
  then have "user_ns s = user_ns_scan (heap s) (user_ns_attr s) (a # rev older)"
    using user_ns_scan_skip [of "rev newer" "heap s"] by (simp add: user_ns_def)
  with h show "user_ns s = Inr (ns_globals m)" by simp
next
  assume "\<forall>b \<in> set (namespace_stack s). (\<forall>p. lookup (heap s) b = Some (Pdb p) \<longrightarrow> curframe p = None)
            \<and> (\<forall>m. lookup (heap s) b \<noteq> Some (NsMgr m))"
  then show "user_ns s = Inr (user_ns_attr s)"
    using user_ns_scan_skip [of "rev (namespace_stack s)" "heap s" "user_ns_attr s" "[]"]
    by (simp add: user_ns_def)
qed

theorem user_ns_resolution_witness:
  "user_ns (example_shell [6, 4, 7]) = Inr 1 \<and> user_ns (example_shell [4, 6]) = Inr 5
   \<and> user_ns (example_shell [7]) = Inr 0"
proof -
  have a: "namespace_stack (example_shell [6, 4, 7]) = [6] @ 4 # [7]
      \<and> (\<forall>b \<in> set [7]. (\<forall>p. lookup (heap (example_shell [6, 4, 7])) b = Some (Pdb p) \<longrightarrow> curframe p = None)
            \<and> (\<forall>m. lookup (heap (example_shell [6, 4, 7])) b \<noteq> Some (NsMgr m)))
      \<and> lookup (heap (example_shell [6, 4, 7])) 4
          = Some (Pdb (new_SpyderPdb\<lparr>curframe := Some 3, curframe_locals := Some 2\<rparr>))
      \<and> curframe (new_SpyderPdb\<lparr>curframe := Some 3, curframe_locals := Some 2\<rparr>) = Some 3
      \<and> lookup (heap (example_shell [6, 4, 7])) 3 = Some (Frame \<lparr>f_globals = 1, f_locals = 2\<rparr>)"
    by (simp add: example_simps)
  have b: "namespace_stack (example_shell [4, 6]) = [4] @ 6 # []
      \<and> (\<forall>b \<in> set []. (\<forall>p. lookup (heap (example_shell [4, 6])) b = Some (Pdb p) \<longrightarrow> curframe p = None)
            \<and> (\<forall>m. lookup (heap (example_shell [4, 6])) b \<noteq> Some (NsMgr m)))
      \<and> lookup (heap (example_shell [4, 6])) 6 = Some (NsMgr \<lparr>ns_globals = 5, ns_locals = None\<rparr>)"
    by (simp add: example_simps)
  have c: "\<forall>b \<in> set (namespace_stack (example_shell [7])).
       (\<forall>p. lookup (heap (example_shell [7])) b = Some (Pdb p) \<longrightarrow> curframe p = None)
            \<and> (\<forall>m. lookup (heap (example_shell [7])) b \<noteq> Some (NsMgr m))"
    by (simp add: example_simps)
  from a b c
    user_ns_resolution [of "example_shell [6, 4, 7]" "[6]" 4 "[7]"
       "new_SpyderPdb\<lparr>curframe := Some 3, curframe_locals := Some 2\<rparr>" 3
       "\<lparr>f_globals = 1, f_locals = 2\<rparr>"]
    user_ns_resolution [of "example_shell [4, 6]" "[4]" 6 "[]" _ _ _ "\<lparr>ns_globals = 5, ns_locals = None\<rparr>"]
    user_ns_resolution [of "example_shell [7]"]
  show ?thesis by (simp add: example_shell_def)
qed

text \<open>
  The claim C1 as it is stated gives the debugger session priority. With the debugger
  session 4 (stopped at frame 3, whose globals are at 1) pushed first and the namespace
  manager 6 (globals at 5) pushed after it, the words of the claim give 1, and
  \<open>user_ns\<close> returns 5.
\<close>

theorem user_ns_counterexample:
  "user_ns_as_claimed (example_shell [4, 6]) = 1
   \<and> user_ns (example_shell [4, 6]) = Inr 5
   \<and> user_ns (example_shell [4, 6]) \<noteq> Inr (user_ns_as_claimed (example_shell [4, 6]))"
  by (simp add: user_ns_as_claimed_def user_ns_def example_simps
      debugger_frame_globals_def manager_globals_def List.map_filter_simps)

subsection \<open>Popping an entry that is not on top\<close>

lemma remove_namespace_manager_not_top:
  "namespace_stack s \<noteq> [] \<Longrightarrow> last (namespace_stack s) \<noteq> ns_manager \<Longrightarrow>
   remove_namespace_manager ns_manager s =
     (Inr (), s\<lparr>events := events s @ [LogDebug ''The namespace stack is inconsistent.'']\<rparr>)"
  by (simp add: remove_namespace_manager_def)

lemma remove_pdb_session_not_active:
  "pdb_session s \<noteq> Some pdb_obj \<Longrightarrow> remove_pdb_session pdb_obj s = (Inr (), s)"
  by (simp add: remove_pdb_session_def)

text \<open>
  C2 asks that a pop of an entry that is not the top of the stack leaves the stack
  unchanged and never raises, also on the empty stack. That holds for
  \<open>remove_namespace_manager\<close> on a stack that is not empty, and for
  \<open>remove_pdb_session\<close> of an object that is not the active debugger session (the two
  lemmas above). On the empty stack
  \<open>remove_namespace_manager\<close> raises \<open>IndexError\<close>. With the debugger session 4 below
  the namespace manager 6, \<open>remove_pdb_session\<close> of 4, which is not the top, pops the
  namespace manager.
\<close>

theorem remove_not_top_failing:
  "remove_namespace_manager 6 (example_shell []) = (Inl IndexError, example_shell [])
   \<and> last (namespace_stack (example_shell [4, 6])) \<noteq> 4
   \<and> fst (remove_pdb_session 4 (example_shell [4, 6])) = Inr ()
   \<and> namespace_stack (snd (remove_pdb_session 4 (example_shell [4, 6]))) = [4]"
  by (simp add: remove_namespace_manager_def remove_pdb_session_def pdb_session_def
      example_simps set_pdb_configuration_def PDB_CONF_KEYS_def setattr_def Let_def)

subsection \<open>The interrupt handler\<close>

lemma handler_no_alloc:
  "\<not> request_pdb_stop_flag s \<Longrightarrow>
   length (heap (snd (spyderkernel_sigint_handler signum frame s))) = length (heap s)"
  by (simp add: spyderkernel_sigint_handler_def call_pdb_def split: option.splits object.splits)

lemma handler_request:
  "request_pdb_stop_flag s \<Longrightarrow>
     spyderkernel_sigint_handler signum frame s =
       (Inr (), s\<lparr>request_pdb_stop_flag := False,
                  heap := heap s @ [Pdb (new_SpyderPdb\<lparr>interrupting := True,
                                           set_trace_calls := [frame]\<rparr>)]\<rparr>)"
  by (simp add: spyderkernel_sigint_handler_def call_pdb_def alloc_def lookup_def
      interrupt_def set_trace_def new_SpyderPdb_def)

text \<open>
  C3. If the flag \<open>_request_pdb_stop\<close> is true when the handler runs, the handler
  returns without raising, the flag is cleared, and the store has exactly one new
  object: a debugger session that is marked interrupting and whose \<open>set_trace\<close> was
  called once, with the delivered frame; nothing else changes. A second delivery, to the
  state the first one left (the flag was not set again), creates no object.
\<close>

theorem sigint_handler_request:
  "request_pdb_stop_flag s \<longrightarrow>
     spyderkernel_sigint_handler signum frame s =
       (Inr (), s\<lparr>request_pdb_stop_flag := False,
                  heap := heap s @ [Pdb (new_SpyderPdb\<lparr>interrupting := True,
                                           set_trace_calls := [frame]\<rparr>)]\<rparr>)
     \<and> length (heap (snd (spyderkernel_sigint_handler signum2 frame2
           (snd (spyderkernel_sigint_handler signum frame s)))))
         = length (heap (snd (spyderkernel_sigint_handler signum frame s)))"
proof
  assume r: "request_pdb_stop_flag s"
  have "\<not> request_pdb_stop_flag (snd (spyderkernel_sigint_handler signum frame s))"
    by (simp add: handler_request [OF r])
  then show "spyderkernel_sigint_handler signum frame s =
       (Inr (), s\<lparr>request_pdb_stop_flag := False,
                  heap := heap s @ [Pdb (new_SpyderPdb\<lparr>interrupting := True,
                                           set_trace_calls := [frame]\<rparr>)]\<rparr>)
     \<and> length (heap (snd (spyderkernel_sigint_handler signum2 frame2
           (snd (spyderkernel_sigint_handler signum frame s)))))
         = length (heap (snd (spyderkernel_sigint_handler signum frame s)))"
    using handler_request [OF r] handler_no_alloc by blast
qed

theorem sigint_handler_request_witness:
  "request_pdb_stop_flag ((example_shell [])\<lparr>request_pdb_stop_flag := True\<rparr>)
   \<and> spyderkernel_sigint_handler 2 (Some 3) ((example_shell [])\<lparr>request_pdb_stop_flag := True\<rparr>) =
       (Inr (), (example_shell [])\<lparr>heap := example_store @
          [Pdb (new_SpyderPdb\<lparr>interrupting := True, set_trace_calls := [Some 3]\<rparr>)]\<rparr>)
   \<and> length (heap (snd (spyderkernel_sigint_handler 2 (Some 3)
         (snd (spyderkernel_sigint_handler 2 (Some 3)
            ((example_shell [])\<lparr>request_pdb_stop_flag := True\<rparr>)))))) = 9"
proof -
  let ?s = "(example_shell [])\<lparr>request_pdb_stop_flag := True\<rparr>"
  have h: "request_pdb_stop_flag ?s" by simp
  from h sigint_handler_request [of ?s 2 "Some 3" 2 "Some 3"]
  have a: "spyderkernel_sigint_handler 2 (Some 3) ?s =
       (Inr (), ?s\<lparr>request_pdb_stop_flag := False,
                  heap := heap ?s @ [Pdb (new_SpyderPdb\<lparr>interrupting := True,
                                           set_trace_calls := [Some 3]\<rparr>)]\<rparr>)"
    and b: "length (heap (snd (spyderkernel_sigint_handler 2 (Some 3)
           (snd (spyderkernel_sigint_handler 2 (Some 3) ?s)))))
         = length (heap (snd (spyderkernel_sigint_handler 2 (Some 3) ?s)))"
    by blast+
  have c: "?s\<lparr>request_pdb_stop_flag := False,
                  heap := heap ?s @ [Pdb (new_SpyderPdb\<lparr>interrupting := True,
                                           set_trace_calls := [Some 3]\<rparr>)]\<rparr> =
     (example_shell [])\<lparr>heap := example_store @
          [Pdb (new_SpyderPdb\<lparr>interrupting := True, set_trace_calls := [Some 3]\<rparr>)]\<rparr>"
    by (simp add: example_shell_def)
  have d: "length (heap (snd (spyderkernel_sigint_handler 2 (Some 3) ?s))) = 9"
    by (simp add: a) (simp add: example_shell_def example_store_def)
  from a c have a': "spyderkernel_sigint_handler 2 (Some 3) ?s =
       (Inr (), (example_shell [])\<lparr>heap := example_store @
          [Pdb (new_SpyderPdb\<lparr>interrupting := True, set_trace_calls := [Some 3]\<rparr>)]\<rparr>)"
    by simp
  from b d have b': "length (heap (snd (spyderkernel_sigint_handler 2 (Some 3)
           (snd (spyderkernel_sigint_handler 2 (Some 3) ?s))))) = 9"
    by simp
  from h a' b' show ?thesis by blast
qed

text \<open>
  C4. When the handler runs with no pending request and with an active debugger session
  (\<open>pdb_session\<close> is not \<open>None\<close>): if the session allows a raised interrupt, the
  handler raises \<open>KeyboardInterrupt\<close>; else if the session is already interrupting,
  it raises \<open>KeyboardInterrupt\<close>; otherwise it calls \<open>interrupt\<close> of the session,
  which marks it interrupting, and returns without raising.
\<close>

theorem sigint_handler_debugging:
  "\<not> request_pdb_stop_flag s \<and> pdb_session s = Some a \<longrightarrow>
     (\<exists>p. lookup (heap s) a = Some (Pdb p)
        \<and> (allow_kbdint p \<longrightarrow>
             spyderkernel_sigint_handler signum frame s = (Inl KeyboardInterrupt, s))
        \<and> (\<not> allow_kbdint p \<and> interrupting p \<longrightarrow>
             spyderkernel_sigint_handler signum frame s = (Inl KeyboardInterrupt, s))
        \<and> (\<not> allow_kbdint p \<and> \<not> interrupting p \<longrightarrow>
             spyderkernel_sigint_handler signum frame s =
               (Inr (), s\<lparr>heap := (heap s)[a := Pdb (p\<lparr>interrupting := True\<rparr>)]\<rparr>)))"
proof
  assume h: "\<not> request_pdb_stop_flag s \<and> pdb_session s = Some a"
  then obtain p where p: "lookup (heap s) a = Some (Pdb p)"
    using pdb_session_Some by blast
  with h show "\<exists>p. lookup (heap s) a = Some (Pdb p)
        \<and> (allow_kbdint p \<longrightarrow>
             spyderkernel_sigint_handler signum frame s = (Inl KeyboardInterrupt, s))
        \<and> (\<not> allow_kbdint p \<and> interrupting p \<longrightarrow>
             spyderkernel_sigint_handler signum frame s = (Inl KeyboardInterrupt, s))
        \<and> (\<not> allow_kbdint p \<and> \<not> interrupting p \<longrightarrow>
             spyderkernel_sigint_handler signum frame s =
               (Inr (), s\<lparr>heap := (heap s)[a := Pdb (p\<lparr>interrupting := True\<rparr>)]\<rparr>))"
    by (simp add: spyderkernel_sigint_handler_def call_pdb_def interrupt_def)
qed

theorem sigint_handler_debugging_witness:
  "\<not> request_pdb_stop_flag (example_shell [4]) \<and> pdb_session (example_shell [4]) = Some 4
   \<and> spyderkernel_sigint_handler 2 None (example_shell [4]) =
       (Inr (), (example_shell [4])\<lparr>heap := example_store
          [4 := Pdb (new_SpyderPdb\<lparr>curframe := Some 3, curframe_locals := Some 2,
                                   interrupting := True\<rparr>)]\<rparr>)
   \<and> spyderkernel_sigint_handler 2 None ((example_shell [4])\<lparr>heap := example_store
          [4 := Pdb (new_SpyderPdb\<lparr>curframe := Some 3, curframe_locals := Some 2,
                                   interrupting := True\<rparr>)]\<rparr>) =
       (Inl KeyboardInterrupt, (example_shell [4])\<lparr>heap := example_store
          [4 := Pdb (new_SpyderPdb\<lparr>curframe := Some 3, curframe_locals := Some 2,
                                   interrupting := True\<rparr>)]\<rparr>)"
proof -
  let ?s1 = "(example_shell [4])\<lparr>heap := example_store
          [4 := Pdb (new_SpyderPdb\<lparr>curframe := Some 3, curframe_locals := Some 2,
                                   interrupting := True\<rparr>)]\<rparr>"
  have h: "\<not> request_pdb_stop_flag (example_shell [4]) \<and> pdb_session (example_shell [4]) = Some 4"
    by (simp add: pdb_session_def example_simps)
  have h1: "\<not> request_pdb_stop_flag ?s1 \<and> pdb_session ?s1 = Some 4"
    by (simp add: pdb_session_def example_simps)
  have l: "lookup (heap (example_shell [4])) 4 =
      Some (Pdb (new_SpyderPdb\<lparr>curframe := Some 3, curframe_locals := Some 2\<rparr>))"
    by (simp add: example_simps)
  have l1: "lookup (heap ?s1) 4 =
      Some (Pdb (new_SpyderPdb\<lparr>curframe := Some 3, curframe_locals := Some 2,
                                   interrupting := True\<rparr>))"
    by (simp add: example_simps)
  from h l sigint_handler_debugging [of "example_shell [4]" 4 2 None]
  have a: "spyderkernel_sigint_handler 2 None (example_shell [4]) = (Inr (), ?s1)"
    by (auto simp: new_SpyderPdb_def example_shell_def)
  from h1 l1 sigint_handler_debugging [of ?s1 4 2 None]
  have b: "spyderkernel_sigint_handler 2 None ?s1 = (Inl KeyboardInterrupt, ?s1)"
    by (auto simp: new_SpyderPdb_def)
  from h a b show ?thesis by blast
qed

lemma handler_flag:
  "allow_kbdint_flag (snd (spyderkernel_sigint_handler signum frame s)) = allow_kbdint_flag s"
  by (simp add: spyderkernel_sigint_handler_def alloc_def Let_def split: option.splits object.splits)

lemma handler_idle:
  "\<not> request_pdb_stop_flag s \<Longrightarrow> pdb_session s = None \<Longrightarrow>
      spyderkernel_sigint_handler signum frame s =
        (if allow_kbdint_flag s then (Inl KeyboardInterrupt, s) else (Inr (), s))"
  by (simp add: spyderkernel_sigint_handler_def)

lemma run_code_result:
  "super_run_code (s\<lparr>allow_kbdint_flag := True\<rparr>) = (r, s2) \<Longrightarrow>
        run_code super_run_code s =
          (case r of
             Inr v \<Rightarrow> (Inr (Some v), s2\<lparr>allow_kbdint_flag := False\<rparr>)
           | Inl e \<Rightarrow>
               (if e = KeyboardInterrupt
                then (Inr None, s2\<lparr>allow_kbdint_flag := False, events := events s2 @ [TracebackShown]\<rparr>)
                else (Inl e, s2\<lparr>allow_kbdint_flag := False\<rparr>)))"
  by (simp add: run_code_def showtraceback_def split: sum.splits)

lemma run_code_clears: "\<not> allow_kbdint_flag (snd (run_code super_run_code s))"
  by (simp add: run_code_def showtraceback_def Let_def split: prod.splits sum.splits)

lemma run_code_catches: "fst (run_code super_run_code s) \<noteq> Inl KeyboardInterrupt"
  by (simp add: run_code_def showtraceback_def Let_def split: prod.splits sum.splits)

text \<open>
  C5. When the handler runs with no pending request and no active debugger session, it
  raises \<open>KeyboardInterrupt\<close> if and only if the flag \<open>_allow_kbdint\<close> is set;
  otherwise it returns and changes nothing. The handler never changes that flag;
  \<open>run_code\<close> sets it for the execution of the submitted code and leaves it cleared
  on every exit. A \<open>KeyboardInterrupt\<close> raised by the submitted code is caught: the
  traceback is shown and \<open>run_code\<close> returns without raising it.
\<close>

theorem sigint_handler_idle:
  "(\<not> request_pdb_stop_flag s \<and> pdb_session s = None \<longrightarrow>
      spyderkernel_sigint_handler signum frame s =
        (if allow_kbdint_flag s then (Inl KeyboardInterrupt, s) else (Inr (), s)))
   \<and> allow_kbdint_flag (snd (spyderkernel_sigint_handler signum frame s)) = allow_kbdint_flag s
   \<and> (super_run_code (s\<lparr>allow_kbdint_flag := True\<rparr>) = (r, s2) \<longrightarrow>
        run_code super_run_code s =
          (case r of
             Inr v \<Rightarrow> (Inr (Some v), s2\<lparr>allow_kbdint_flag := False\<rparr>)
           | Inl e \<Rightarrow>
               (if e = KeyboardInterrupt
                then (Inr None, s2\<lparr>allow_kbdint_flag := False, events := events s2 @ [TracebackShown]\<rparr>)
                else (Inl e, s2\<lparr>allow_kbdint_flag := False\<rparr>))))
   \<and> \<not> allow_kbdint_flag (snd (run_code super_run_code s))
   \<and> fst (run_code super_run_code s) \<noteq> Inl KeyboardInterrupt"
  using handler_idle [of s signum frame] handler_flag [of signum frame s]
    run_code_result [of super_run_code s r s2] run_code_clears [of super_run_code s]
    run_code_catches [of super_run_code s]
  by blast


theorem sigint_handler_idle_witness:
  "\<not> request_pdb_stop_flag (example_shell [6]) \<and> pdb_session (example_shell [6]) = None
   \<and> spyderkernel_sigint_handler 2 None (example_shell [6]) = (Inr (), example_shell [6])
   \<and> spyderkernel_sigint_handler 2 None ((example_shell [6])\<lparr>allow_kbdint_flag := True\<rparr>) =
       (Inl KeyboardInterrupt, (example_shell [6])\<lparr>allow_kbdint_flag := True\<rparr>)
   \<and> run_code (\<lambda>t. (Inl KeyboardInterrupt :: exn + unit, t)) (example_shell [6]) =
       (Inr None, (example_shell [6])\<lparr>events := [TracebackShown]\<rparr>)"
proof -
  let ?s1 = "(example_shell [6])\<lparr>allow_kbdint_flag := True\<rparr>"
  let ?body = "\<lambda>t. (Inl KeyboardInterrupt :: exn + unit, t)"
  have h: "\<not> request_pdb_stop_flag (example_shell [6]) \<and> pdb_session (example_shell [6]) = None"
    by (simp add: pdb_session_def example_simps)
  have h1: "\<not> request_pdb_stop_flag ?s1 \<and> pdb_session ?s1 = None"
    by (simp add: pdb_session_def example_simps)
  have r: "?body ?s1 = (Inl KeyboardInterrupt, ?s1)"
    by simp
  note t = sigint_handler_idle [of "example_shell [6]" 2 None ?body "Inl KeyboardInterrupt" ?s1]
  from h t have "spyderkernel_sigint_handler 2 None (example_shell [6]) =
        (if allow_kbdint_flag (example_shell [6]) then (Inl KeyboardInterrupt, example_shell [6])
         else (Inr (), example_shell [6]))"
    by blast
  then have a: "spyderkernel_sigint_handler 2 None (example_shell [6]) = (Inr (), example_shell [6])"
    by (simp add: example_shell_def)
  from r t have "run_code ?body (example_shell [6]) =
          (case (Inl KeyboardInterrupt :: exn + unit) of
             Inr v \<Rightarrow> (Inr (Some v), ?s1\<lparr>allow_kbdint_flag := False\<rparr>)
           | Inl e \<Rightarrow>
               (if e = KeyboardInterrupt
                then (Inr None, ?s1\<lparr>allow_kbdint_flag := False, events := events ?s1 @ [TracebackShown]\<rparr>)
                else (Inl e, ?s1\<lparr>allow_kbdint_flag := False\<rparr>)))"
    by blast
  then have c: "run_code ?body (example_shell [6]) =
       (Inr None, (example_shell [6])\<lparr>events := [TracebackShown]\<rparr>)"
    by (simp add: example_shell_def)
  from h1 sigint_handler_idle [of ?s1 2 None ?body "Inl KeyboardInterrupt" ?s1]
  have "spyderkernel_sigint_handler 2 None ?s1 =
        (if allow_kbdint_flag ?s1 then (Inl KeyboardInterrupt, ?s1) else (Inr (), ?s1))"
    by blast
  then have b: "spyderkernel_sigint_handler 2 None ?s1 = (Inl KeyboardInterrupt, ?s1)"
    by simp
  from h a b c show ?thesis by blast
qed

subsection \<open>Configuration of the active debugger session\<close>

lemma set_pdb_configuration_keys_effect:
  "pdb_session s = Some a \<Longrightarrow> lookup (heap s) a = Some (Pdb p) \<Longrightarrow>
   \<exists>al. set_pdb_configuration_keys keys conf s =
       s\<lparr>pdb_conf := fold (\<lambda>k c. case map_of conf k of None \<Rightarrow> c | Some v \<Rightarrow> AList.update k v c)
                       keys (pdb_conf s),
         heap := (heap s)[a := Pdb (p\<lparr>attrs := al\<rparr>)]\<rparr>
     \<and> (\<forall>k. map_of al k =
           (if k \<in> set keys \<and> map_of conf k \<noteq> None then map_of conf k else map_of (attrs p) k))"
proof (induction keys arbitrary: s p)
  case Nil
  then have "(heap s)[a := Pdb p] = heap s"
    by (metis list_update_id lookup_def option.distinct(1) option.inject)
  then have "s = s\<lparr>pdb_conf := pdb_conf s, heap := (heap s)[a := Pdb (p\<lparr>attrs := attrs p\<rparr>)]\<rparr>"
    by simp
  then show ?case by (intro exI [of _ "attrs p"]) simp
next
  case (Cons key keys)
  show ?case
  proof (cases "map_of conf key")
    case None
    from Cons.IH [OF Cons.prems] obtain al where
      al: "set_pdb_configuration_keys keys conf s =
          s\<lparr>pdb_conf := fold (\<lambda>k c. case map_of conf k of None \<Rightarrow> c | Some v \<Rightarrow> AList.update k v c)
                       keys (pdb_conf s),
         heap := (heap s)[a := Pdb (p\<lparr>attrs := al\<rparr>)]\<rparr>"
      and m: "\<forall>k. map_of al k =
           (if k \<in> set keys \<and> map_of conf k \<noteq> None then map_of conf k else map_of (attrs p) k)"
      by blast
    have "set_pdb_configuration_keys (key # keys) conf s =
       s\<lparr>pdb_conf := fold (\<lambda>k c. case map_of conf k of None \<Rightarrow> c | Some v \<Rightarrow> AList.update k v c)
                       (key # keys) (pdb_conf s),
         heap := (heap s)[a := Pdb (p\<lparr>attrs := al\<rparr>)]\<rparr>"
      using al None by simp
    moreover have "\<forall>k. map_of al k =
           (if k \<in> set (key # keys) \<and> map_of conf k \<noteq> None then map_of conf k
            else map_of (attrs p) k)"
      using m None by auto
    ultimately show ?thesis by blast
  next
    case (Some v)
    let ?s1 = "s\<lparr>pdb_conf := AList.update key v (pdb_conf s)\<rparr>"
    let ?p2 = "p\<lparr>attrs := AList.update key v (attrs p)\<rparr>"
    let ?s2 = "?s1\<lparr>heap := (heap s)[a := Pdb ?p2]\<rparr>"
    have s1: "pdb_session ?s1 = Some a" using Cons.prems by (simp add: pdb_session_def)
    have s2: "setattr a key v ?s1 = ?s2" using Cons.prems by (simp add: setattr_def)
    have step: "set_pdb_configuration_keys (key # keys) conf s =
        set_pdb_configuration_keys keys conf ?s2"
      using Some s1 s2 by (simp add: Let_def)
    have a: "a < length (heap s)" using Cons.prems by (simp add: lookup_def split: if_splits)
    have p2: "pdb_session ?s2 = Some a"
      using Cons.prems first_pdb_update [of "heap s" a p ?p2 "rev (namespace_stack s)"]
      by (simp add: pdb_session_def)
    have l2: "lookup (heap ?s2) a = Some (Pdb ?p2)" using a by (simp add: lookup_def)
    from Cons.IH [OF p2 l2] obtain al where
      al: "set_pdb_configuration_keys keys conf ?s2 =
          ?s2\<lparr>pdb_conf := fold (\<lambda>k c. case map_of conf k of None \<Rightarrow> c | Some v \<Rightarrow> AList.update k v c)
                       keys (pdb_conf ?s2),
         heap := (heap ?s2)[a := Pdb (?p2\<lparr>attrs := al\<rparr>)]\<rparr>"
      and m: "\<forall>k. map_of al k =
           (if k \<in> set keys \<and> map_of conf k \<noteq> None then map_of conf k else map_of (attrs ?p2) k)"
      by blast
    have "set_pdb_configuration_keys (key # keys) conf s =
       s\<lparr>pdb_conf := fold (\<lambda>k c. case map_of conf k of None \<Rightarrow> c | Some v \<Rightarrow> AList.update k v c)
                       (key # keys) (pdb_conf s),
         heap := (heap s)[a := Pdb (p\<lparr>attrs := al\<rparr>)]\<rparr>"
      using step al Some by simp
    moreover have "\<forall>k. map_of al k =
           (if k \<in> set (key # keys) \<and> map_of conf k \<noteq> None then map_of conf k
            else map_of (attrs p) k)"
      using m Some by (auto simp: update_conv')
    ultimately show ?thesis by blast
  qed
qed

lemma fold_update_same:
  "fold (\<lambda>k c. case map_of conf k of None \<Rightarrow> c | Some v \<Rightarrow> AList.update k v c) keys conf = conf"
  by (induction keys) (auto simp: update_triv split: option.splits)

lemma reapply_effect:
  assumes "pdb_session s = Some a" and "lookup (heap s) a = Some (Pdb p)"
  shows "\<exists>al. set_pdb_configuration (pdb_conf s) s = s\<lparr>heap := (heap s)[a := Pdb (p\<lparr>attrs := al\<rparr>)]\<rparr>
     \<and> (\<forall>k. map_of al k =
           (if k \<in> set PDB_CONF_KEYS \<and> map_of (pdb_conf s) k \<noteq> None then map_of (pdb_conf s) k
            else map_of (attrs p) k))"
  using set_pdb_configuration_keys_effect [OF assms, of PDB_CONF_KEYS "pdb_conf s"]
  by (simp add: set_pdb_configuration_def fold_update_same)


lemma add_pdb_session_effect:
  assumes l: "lookup (heap s) pdb_obj = Some (Pdb p)" and n: "pdb_session s \<noteq> Some pdb_obj"
  shows "\<exists>al. add_pdb_session pdb_obj s =
        s\<lparr>namespace_stack := namespace_stack s @ [pdb_obj],
          heap := (heap s)[pdb_obj := Pdb (p\<lparr>attrs := al\<rparr>)]\<rparr>
     \<and> (\<forall>k. map_of al k =
           (if k \<in> set PDB_CONF_KEYS \<and> map_of (pdb_conf s) k \<noteq> None then map_of (pdb_conf s) k
            else map_of (attrs p) k))"
proof -
  let ?s1 = "s\<lparr>namespace_stack := namespace_stack s @ [pdb_obj]\<rparr>"
  have a: "pdb_session ?s1 = Some pdb_obj" using l by (simp add: pdb_session_def)
  have b: "lookup (heap ?s1) pdb_obj = Some (Pdb p)" using l by simp
  from reapply_effect [OF a b] obtain al where
    e: "set_pdb_configuration (pdb_conf ?s1) ?s1 =
          ?s1\<lparr>heap := (heap ?s1)[pdb_obj := Pdb (p\<lparr>attrs := al\<rparr>)]\<rparr>"
    and m: "\<forall>k. map_of al k =
           (if k \<in> set PDB_CONF_KEYS \<and> map_of (pdb_conf ?s1) k \<noteq> None
            then map_of (pdb_conf ?s1) k else map_of (attrs p) k)"
    by blast
  have "add_pdb_session pdb_obj s =
        s\<lparr>namespace_stack := namespace_stack s @ [pdb_obj],
          heap := (heap s)[pdb_obj := Pdb (p\<lparr>attrs := al\<rparr>)]\<rparr>"
    using e n by (simp add: add_pdb_session_def)
  moreover have "\<forall>k. map_of al k =
           (if k \<in> set PDB_CONF_KEYS \<and> map_of (pdb_conf s) k \<noteq> None then map_of (pdb_conf s) k
            else map_of (attrs p) k)"
    using m by (simp cong: if_cong)
  ultimately show ?thesis by blast
qed

lemma pdb_session_heap_update:
  "lookup (heap s) a = Some (Pdb p) \<Longrightarrow>
   pdb_session (s\<lparr>heap := (heap s)[a := Pdb q]\<rparr>) = pdb_session s"
  by (simp add: pdb_session_def first_pdb_update)

lemma remove_pdb_session_effect:
  assumes a: "pdb_session s = Some pdb_obj"
    and q: "pdb_session (s\<lparr>namespace_stack := butlast (namespace_stack s)\<rparr>) = Some q"
    and l: "lookup (heap s) q = Some (Pdb p)"
  shows "\<exists>al. remove_pdb_session pdb_obj s =
        (Inr (), s\<lparr>namespace_stack := butlast (namespace_stack s),
                  heap := (heap s)[q := Pdb (p\<lparr>attrs := al\<rparr>)]\<rparr>)
     \<and> (\<forall>k. map_of al k =
           (if k \<in> set PDB_CONF_KEYS \<and> map_of (pdb_conf s) k \<noteq> None then map_of (pdb_conf s) k
            else map_of (attrs p) k))"
proof -
  let ?s1 = "s\<lparr>namespace_stack := butlast (namespace_stack s)\<rparr>"
  have ne: "namespace_stack s \<noteq> []" using pdb_session_Some [OF a] by auto
  have b: "lookup (heap ?s1) q = Some (Pdb p)" using l by simp
  from reapply_effect [OF q b] obtain al where
    e: "set_pdb_configuration (pdb_conf ?s1) ?s1 =
          ?s1\<lparr>heap := (heap ?s1)[q := Pdb (p\<lparr>attrs := al\<rparr>)]\<rparr>"
    and m: "\<forall>k. map_of al k =
           (if k \<in> set PDB_CONF_KEYS \<and> map_of (pdb_conf ?s1) k \<noteq> None
            then map_of (pdb_conf ?s1) k else map_of (attrs p) k)"
    by blast
  have "remove_pdb_session pdb_obj s =
        (Inr (), s\<lparr>namespace_stack := butlast (namespace_stack s),
                  heap := (heap s)[q := Pdb (p\<lparr>attrs := al\<rparr>)]\<rparr>)"
    using e a q ne by (simp add: remove_pdb_session_def)
  moreover have "\<forall>k. map_of al k =
           (if k \<in> set PDB_CONF_KEYS \<and> map_of (pdb_conf s) k \<noteq> None then map_of (pdb_conf s) k
            else map_of (attrs p) k)"
    using m by (simp cong: if_cong)
  ultimately show ?thesis by blast
qed

text \<open>
  C8. When \<open>add_pdb_session\<close> pushes a debugger session (it is not already the active
  one), that session is the active one afterwards and every key of \<open>PDB_CONF_KEYS\<close>
  that the persisted configuration holds is an attribute of it, with the persisted
  value; the other attributes and the persisted configuration are unchanged. When
  \<open>remove_pdb_session\<close> pops and a debugger session is active afterwards, every key
  of \<open>PDB_CONF_KEYS\<close> that the persisted configuration holds is an attribute of that
  session, with the persisted value.
\<close>

theorem pdb_configuration_reapplied:
  "(lookup (heap s) pdb_obj = Some (Pdb p) \<and> pdb_session s \<noteq> Some pdb_obj \<longrightarrow>
      namespace_stack (add_pdb_session pdb_obj s) = namespace_stack s @ [pdb_obj]
      \<and> pdb_session (add_pdb_session pdb_obj s) = Some pdb_obj
      \<and> pdb_conf (add_pdb_session pdb_obj s) = pdb_conf s
      \<and> (\<exists>p'. lookup (heap (add_pdb_session pdb_obj s)) pdb_obj = Some (Pdb p')
           \<and> (\<forall>k v. k \<in> set PDB_CONF_KEYS \<and> map_of (pdb_conf s) k = Some v
                 \<longrightarrow> map_of (attrs p') k = Some v)
           \<and> (\<forall>k. k \<notin> set PDB_CONF_KEYS \<longrightarrow> map_of (attrs p') k = map_of (attrs p) k)))
   \<and> (pdb_session s = Some pdb_obj
        \<and> pdb_session (snd (remove_pdb_session pdb_obj s)) = Some q \<longrightarrow>
      fst (remove_pdb_session pdb_obj s) = Inr ()
      \<and> namespace_stack (snd (remove_pdb_session pdb_obj s)) = butlast (namespace_stack s)
      \<and> pdb_conf (snd (remove_pdb_session pdb_obj s)) = pdb_conf s
      \<and> (\<exists>q'. lookup (heap (snd (remove_pdb_session pdb_obj s))) q = Some (Pdb q')
           \<and> (\<forall>k v. k \<in> set PDB_CONF_KEYS \<and> map_of (pdb_conf s) k = Some v
                 \<longrightarrow> map_of (attrs q') k = Some v)))"
proof (intro conjI impI)
  assume h: "lookup (heap s) pdb_obj = Some (Pdb p) \<and> pdb_session s \<noteq> Some pdb_obj"
  then obtain al where
    r: "add_pdb_session pdb_obj s =
        s\<lparr>namespace_stack := namespace_stack s @ [pdb_obj],
          heap := (heap s)[pdb_obj := Pdb (p\<lparr>attrs := al\<rparr>)]\<rparr>"
    and m: "\<forall>k. map_of al k =
           (if k \<in> set PDB_CONF_KEYS \<and> map_of (pdb_conf s) k \<noteq> None then map_of (pdb_conf s) k
            else map_of (attrs p) k)"
    using add_pdb_session_effect by blast
  from h have lt: "pdb_obj < length (heap s)" by (simp add: lookup_def split: if_splits)
  show "namespace_stack (add_pdb_session pdb_obj s) = namespace_stack s @ [pdb_obj]"
    by (simp add: r)
  show "pdb_session (add_pdb_session pdb_obj s) = Some pdb_obj"
    using lt by (simp add: r pdb_session_def lookup_def)
  show "pdb_conf (add_pdb_session pdb_obj s) = pdb_conf s"
    by (simp add: r)
  have "lookup (heap (add_pdb_session pdb_obj s)) pdb_obj = Some (Pdb (p\<lparr>attrs := al\<rparr>))"
    using lt by (simp add: r lookup_def)
  moreover have "\<forall>k v. k \<in> set PDB_CONF_KEYS \<and> map_of (pdb_conf s) k = Some v
                 \<longrightarrow> map_of (attrs (p\<lparr>attrs := al\<rparr>)) k = Some v"
    using m by simp
  moreover have "\<forall>k. k \<notin> set PDB_CONF_KEYS
       \<longrightarrow> map_of (attrs (p\<lparr>attrs := al\<rparr>)) k = map_of (attrs p) k"
    using m by simp
  ultimately show "\<exists>p'. lookup (heap (add_pdb_session pdb_obj s)) pdb_obj = Some (Pdb p')
           \<and> (\<forall>k v. k \<in> set PDB_CONF_KEYS \<and> map_of (pdb_conf s) k = Some v
                 \<longrightarrow> map_of (attrs p') k = Some v)
           \<and> (\<forall>k. k \<notin> set PDB_CONF_KEYS \<longrightarrow> map_of (attrs p') k = map_of (attrs p) k)"
    by blast
next
  assume h: "pdb_session s = Some pdb_obj
        \<and> pdb_session (snd (remove_pdb_session pdb_obj s)) = Some q"
  let ?s1 = "s\<lparr>namespace_stack := butlast (namespace_stack s)\<rparr>"
  have ne: "namespace_stack s \<noteq> []" using h pdb_session_Some [of s pdb_obj] by auto
  have "pdb_session ?s1 \<noteq> None"
  proof
    assume "pdb_session ?s1 = None"
    with h ne have "snd (remove_pdb_session pdb_obj s) = ?s1"
      by (simp add: remove_pdb_session_def)
    with h \<open>pdb_session ?s1 = None\<close> show False by simp
  qed
  then obtain q0 where q0: "pdb_session ?s1 = Some q0" by blast
  then obtain p0 where p0: "lookup (heap s) q0 = Some (Pdb p0)"
    using pdb_session_Some [of ?s1 q0] by auto
  from h q0 p0 obtain al where
    r: "remove_pdb_session pdb_obj s =
        (Inr (), s\<lparr>namespace_stack := butlast (namespace_stack s),
                  heap := (heap s)[q0 := Pdb (p0\<lparr>attrs := al\<rparr>)]\<rparr>)"
    and m: "\<forall>k. map_of al k =
           (if k \<in> set PDB_CONF_KEYS \<and> map_of (pdb_conf s) k \<noteq> None then map_of (pdb_conf s) k
            else map_of (attrs p0) k)"
    using remove_pdb_session_effect [of s pdb_obj q0 p0] by blast
  have "pdb_session (snd (remove_pdb_session pdb_obj s)) = Some q0"
    using pdb_session_heap_update [of ?s1 q0 p0 "p0\<lparr>attrs := al\<rparr>"] p0 q0 by (simp add: r)
  with h have qq: "q = q0" by simp
  from p0 have lt: "q0 < length (heap s)" by (simp add: lookup_def split: if_splits)
  show "fst (remove_pdb_session pdb_obj s) = Inr ()" by (simp add: r)
  show "namespace_stack (snd (remove_pdb_session pdb_obj s)) = butlast (namespace_stack s)"
    by (simp add: r)
  show "pdb_conf (snd (remove_pdb_session pdb_obj s)) = pdb_conf s" by (simp add: r)
  have "lookup (heap (snd (remove_pdb_session pdb_obj s))) q = Some (Pdb (p0\<lparr>attrs := al\<rparr>))"
    using lt qq by (simp add: r lookup_def)
  moreover have "\<forall>k v. k \<in> set PDB_CONF_KEYS \<and> map_of (pdb_conf s) k = Some v
                 \<longrightarrow> map_of (attrs (p0\<lparr>attrs := al\<rparr>)) k = Some v"
    using m by simp
  ultimately show "\<exists>q'. lookup (heap (snd (remove_pdb_session pdb_obj s))) q = Some (Pdb q')
           \<and> (\<forall>k v. k \<in> set PDB_CONF_KEYS \<and> map_of (pdb_conf s) k = Some v
                 \<longrightarrow> map_of (attrs q') k = Some v)"
    by blast
qed

theorem pdb_configuration_reapplied_witness:
  "lookup (heap (example_shell [4])) 7 = Some (Pdb new_SpyderPdb)
   \<and> pdb_session (example_shell [4]) \<noteq> Some 7
   \<and> add_pdb_session 7 (example_shell [4]) =
       (example_shell [4, 7])\<lparr>heap := example_store
          [7 := Pdb (new_SpyderPdb\<lparr>attrs := [(''pdb_ignore_lib'', PyBool True)]\<rparr>)]\<rparr>
   \<and> pdb_session (example_shell [4, 7]) = Some 7
   \<and> remove_pdb_session 7 (example_shell [4, 7]) =
       (Inr (), (example_shell [4])\<lparr>heap := example_store
          [4 := Pdb (new_SpyderPdb\<lparr>curframe := Some 3, curframe_locals := Some 2,
                attrs := [(''pdb_ignore_lib'', PyBool True)]\<rparr>)]\<rparr>)
   \<and> pdb_session (snd (remove_pdb_session 7 (example_shell [4, 7]))) = Some 4"
proof -
  have e1: "add_pdb_session 7 (example_shell [4]) =
       (example_shell [4, 7])\<lparr>heap := example_store
          [7 := Pdb (new_SpyderPdb\<lparr>attrs := [(''pdb_ignore_lib'', PyBool True)]\<rparr>)]\<rparr>"
    by (simp add: add_pdb_session_def pdb_session_def set_pdb_configuration_def
        PDB_CONF_KEYS_def setattr_def Let_def example_simps)
  have e2: "remove_pdb_session 7 (example_shell [4, 7]) =
       (Inr (), (example_shell [4])\<lparr>heap := example_store
          [4 := Pdb (new_SpyderPdb\<lparr>curframe := Some 3, curframe_locals := Some 2,
                attrs := [(''pdb_ignore_lib'', PyBool True)]\<rparr>)]\<rparr>)"
    by (simp add: remove_pdb_session_def pdb_session_def set_pdb_configuration_def
        PDB_CONF_KEYS_def setattr_def Let_def example_simps)
  have h1: "lookup (heap (example_shell [4])) 7 = Some (Pdb new_SpyderPdb)
      \<and> pdb_session (example_shell [4]) \<noteq> Some 7"
    by (simp add: pdb_session_def example_simps)
  have h2: "pdb_session (example_shell [4, 7]) = Some 7
      \<and> pdb_session (snd (remove_pdb_session 7 (example_shell [4, 7]))) = Some 4"
    by (simp add: e2) (simp add: pdb_session_def example_simps)
  from h1 pdb_configuration_reapplied [of "example_shell [4]" 7 new_SpyderPdb]
  have a: "pdb_session (add_pdb_session 7 (example_shell [4])) = Some 7" by blast
  from h2 pdb_configuration_reapplied [of "example_shell [4, 7]" 7 _ 4]
  have b: "fst (remove_pdb_session 7 (example_shell [4, 7])) = Inr ()" by blast
  from h1 h2 e1 e2 a b show ?thesis by blast
qed

subsection \<open>The flattened copy of the current namespace\<close>































end
